theory Spec2Isabelle
  imports Complex_Main "HOL-Library.AList"
begin

section \<open>JavaScript values\<close>

text \<open>
  The diagnostic service (\<^verbatim>\<open>DiagnosticService.js\<close>) works on plain JavaScript objects:
  metric snapshots produced by the data adapters and diagnosis objects. A value is
  modelled as a JSON-like tree. An object is the list of its own properties in property
  order, which for the non-index names used here is insertion order. A number is a
  rational, \<open>NaN\<close> or one of the two infinities. A JavaScript number stands for its
  exact value: the literal \<open>7.4975\<close> is the double \<open>8441434551552573 / 2^50\<close>, just
  below the decimal fraction. Arithmetic is exact; the rounding of a result to the
  nearest double and the sign of zero are not modelled. A \<open>string\<close> is the list of the
  bytes of its UTF-8 encoding.
\<close>

datatype jsnum = NaN | NInf | Fin rat | PInf

datatype jsval =
    JUndefined
  | JNull
  | JBool bool
  | JNum jsnum
  | JStr string
  | JArr "jsval list"
  | JObj "(string \<times> jsval) list"

type_synonym jsobject = "(string \<times> jsval) list"

datatype js_error = TypeError | Error string

text \<open>
  Built-ins of the JavaScript runtime that are not code of the repository are taken as
  parameters: \<open>JSON.parse\<close> on a text that starts with an opening brace (it returns an
  object or throws, \<open>None\<close>), the conversions between finite numbers and strings, and
  the locale-dependent number formatting.
\<close>

record js_runtime =
  JSON_parse :: "string \<Rightarrow> jsobject option"
  NumberToString :: "rat \<Rightarrow> string"
  StringToNumber :: "string \<Rightarrow> jsnum"
  NumberToLocaleString :: "jsnum \<Rightarrow> string"
  NumberToFixed :: "jsnum \<Rightarrow> nat \<Rightarrow> string"

definition getp :: "jsobject \<Rightarrow> string \<Rightarrow> jsval" where
  \<comment> \<open>\<open>obj.k\<close>: a missing property reads as \<open>undefined\<close>\<close>
  "getp obj k = (case map_of obj k of None \<Rightarrow> JUndefined | Some v \<Rightarrow> v)"

fun truthy :: "jsval \<Rightarrow> bool" where
  "truthy JUndefined = False"
| "truthy JNull = False"
| "truthy (JBool b) = b"
| "truthy (JNum n) = (n \<noteq> NaN \<and> n \<noteq> Fin 0)"
| "truthy (JStr s) = (s \<noteq> [])"
| "truthy (JArr xs) = True"
| "truthy (JObj fs) = True"

definition js_or :: "jsval \<Rightarrow> jsval \<Rightarrow> jsval" where
  \<comment> \<open>\<open>a || b\<close>\<close>
  "js_or a b = (if truthy a then a else b)"

fun join :: "string \<Rightarrow> string list \<Rightarrow> string" where
  "join sep [] = []"
| "join sep [x] = x"
| "join sep (x # y # ys) = x @ sep @ join sep (y # ys)"

fun ToString :: "js_runtime \<Rightarrow> jsval \<Rightarrow> string"
  and ToString_elems :: "js_runtime \<Rightarrow> jsval list \<Rightarrow> string list" where
  "ToString js JUndefined = ''undefined''"
| "ToString js JNull = ''null''"
| "ToString js (JBool b) = (if b then ''true'' else ''false'')"
| "ToString js (JNum n) =
     (case n of NaN \<Rightarrow> ''NaN'' | NInf \<Rightarrow> ''-Infinity'' | PInf \<Rightarrow> ''Infinity''
      | Fin r \<Rightarrow> NumberToString js r)"
| "ToString js (JStr s) = s"
| "ToString js (JArr xs) = join '','' (ToString_elems js xs)"
| "ToString js (JObj fs) = ''[object Object]''"
| "ToString_elems js [] = []"
| "ToString_elems js (x # xs) =
     (if x = JUndefined \<or> x = JNull then [] else ToString js x) # ToString_elems js xs"

text \<open>
  \<open>v.toLocaleString()\<close>. The code calls it on a value that is neither \<open>undefined\<close> nor
  \<open>null\<close>: on \<open>metrics.alertCount || 0\<close>, and on \<open>metrics.totalAreaHa\<close> behind
  \<open>?.\<close>; the two equations for these values are never used.
\<close>

fun toLocaleString :: "js_runtime \<Rightarrow> jsval \<Rightarrow> string"
  and toLocaleString_elems :: "js_runtime \<Rightarrow> jsval list \<Rightarrow> string list" where
  "toLocaleString js (JNum n) = NumberToLocaleString js n"
| "toLocaleString js (JArr xs) = join '','' (toLocaleString_elems js xs)"
| "toLocaleString js JUndefined = ''undefined''"
| "toLocaleString js JNull = ''null''"
| "toLocaleString js (JBool b) = (if b then ''true'' else ''false'')"
| "toLocaleString js (JStr s) = s"
| "toLocaleString js (JObj fs) = ''[object Object]''"
| "toLocaleString_elems js [] = []"
| "toLocaleString_elems js (x # xs) =
     (if x = JUndefined \<or> x = JNull then [] else toLocaleString js x)
       # toLocaleString_elems js xs"

definition ToNumber :: "js_runtime \<Rightarrow> jsval \<Rightarrow> jsnum" where
  \<comment> \<open>an array or object is first converted to its string\<close>
  "ToNumber js v =
     (case v of
        JUndefined \<Rightarrow> NaN
      | JNull \<Rightarrow> Fin 0
      | JBool b \<Rightarrow> Fin (if b then 1 else 0)
      | JNum n \<Rightarrow> n
      | JStr s \<Rightarrow> StringToNumber js s
      | JArr xs \<Rightarrow> StringToNumber js (ToString js v)
      | JObj fs \<Rightarrow> StringToNumber js (ToString js v))"

subsection \<open>Number comparison and arithmetic\<close>

fun jless :: "jsnum \<Rightarrow> jsnum \<Rightarrow> bool" where
  "jless NaN b = False"
| "jless a NaN = False"
| "jless (Fin a) (Fin b) = (a < b)"
| "jless NInf NInf = False"
| "jless NInf b = True"
| "jless a NInf = False"
| "jless PInf b = False"
| "jless a PInf = True"

definition jle :: "jsnum \<Rightarrow> jsnum \<Rightarrow> bool" where
  "jle a b = (a \<noteq> NaN \<and> b \<noteq> NaN \<and> \<not> jless b a)"

definition js_gt :: "js_runtime \<Rightarrow> jsval \<Rightarrow> rat \<Rightarrow> bool" where
  \<comment> \<open>\<open>v > c\<close> for a number literal \<open>c\<close>\<close>
  "js_gt js v c = jless (Fin c) (ToNumber js v)"

definition js_ge :: "js_runtime \<Rightarrow> jsval \<Rightarrow> rat \<Rightarrow> bool" where
  \<comment> \<open>\<open>v >= c\<close> for a number literal \<open>c\<close>\<close>
  "js_ge js v c = jle (Fin c) (ToNumber js v)"








subsection \<open>\<open>JSON.stringify\<close>\<close>

definition hexdigit :: "nat \<Rightarrow> char" where
  "hexdigit n = ''0123456789abcdef'' ! (n mod 16)"

definition quote_char :: "char \<Rightarrow> string" where
  "quote_char c =
     (if c = CHR 0x22 then [CHR 0x5C, CHR 0x22]
      else if c = CHR 0x5C then [CHR 0x5C, CHR 0x5C]
      else if c = CHR 0x08 then [CHR 0x5C, CHR ''b'']
      else if c = CHR 0x0C then [CHR 0x5C, CHR ''f'']
      else if c = CHR 0x0A then [CHR 0x5C, CHR ''n'']
      else if c = CHR 0x0D then [CHR 0x5C, CHR ''r'']
      else if c = CHR 0x09 then [CHR 0x5C, CHR ''t'']
      else if (of_char c :: nat) < 32
        then [CHR 0x5C, CHR ''u'', CHR ''0'', CHR ''0'',
              hexdigit (of_char c div 16), hexdigit (of_char c)]
      else [c])"

definition quote :: "string \<Rightarrow> string" where
  "quote s = [CHR 0x22] @ concat (map quote_char s) @ [CHR 0x22]"

text \<open>
  \<open>JSON.stringify\<close> writes the properties of an object in property order and skips a
  property whose value is \<open>undefined\<close>; in an array \<open>undefined\<close> is written as
  \<open>null\<close>, and so is a number that is not finite. The result \<open>None\<close> stands for
  \<open>undefined\<close>.
\<close>

fun JSON_stringify :: "js_runtime \<Rightarrow> jsval \<Rightarrow> string option"
  and stringify_elems :: "js_runtime \<Rightarrow> jsval list \<Rightarrow> string list"
  and stringify_props :: "js_runtime \<Rightarrow> (string \<times> jsval) list \<Rightarrow> string list" where
  "JSON_stringify js JUndefined = None"
| "JSON_stringify js JNull = Some ''null''"
| "JSON_stringify js (JBool b) = Some (if b then ''true'' else ''false'')"
| "JSON_stringify js (JNum n) =
     Some (case n of Fin r \<Rightarrow> NumberToString js r | _ \<Rightarrow> ''null'')"
| "JSON_stringify js (JStr s) = Some (quote s)"
| "JSON_stringify js (JArr xs) = Some (''['' @ join '','' (stringify_elems js xs) @ '']'')"
| "JSON_stringify js (JObj fs) = Some (''{'' @ join '','' (stringify_props js fs) @ ''}'')"
| "stringify_elems js [] = []"
| "stringify_elems js (x # xs) =
     (case JSON_stringify js x of None \<Rightarrow> ''null'' | Some t \<Rightarrow> t) # stringify_elems js xs"
| "stringify_props js [] = []"
| "stringify_props js (kv # fs) =
     (case JSON_stringify js (snd kv) of
        None \<Rightarrow> stringify_props js fs
      | Some t \<Rightarrow> (quote (fst kv) @ '':'' @ t) # stringify_props js fs)"

definition cacheKey :: "js_runtime \<Rightarrow> string \<Rightarrow> jsobject \<Rightarrow> string" where
  \<comment> \<open>\<open>`${organType}-${JSON.stringify(metrics)}`\<close>\<close>
  "cacheKey js organType metrics =
     organType @ ''-'' @
       (case JSON_stringify js (JObj metrics) of None \<Rightarrow> ''undefined'' | Some t \<Rightarrow> t)"

section \<open>The rule-based diagnosis engine\<close>

definition diagnosisObject :: "string \<Rightarrow> string \<Rightarrow> string \<Rightarrow> string \<Rightarrow> jsobject" where
  \<comment> \<open>the object literal returned by \<open>generateRuleBasedDiagnosis\<close>\<close>
  "diagnosisObject diagnosis status severity isoTime =
     [(''diagnosis'', JStr diagnosis),
      (''status'', JStr status),
      (''severity'', JStr severity),
      (''source'', JStr ''Rule-based diagnostic system''),
      (''timestamp'', JStr isoTime)]"

definition areaText :: "js_runtime \<Rightarrow> jsval \<Rightarrow> string" where
  \<comment> \<open>\<open>metrics.totalAreaHa?.toLocaleString() || "N/A"\<close>\<close>
  "areaText js v =
     (if v = JUndefined \<or> v = JNull then ''N/A''
      else if toLocaleString js v = [] then ''N/A'' else toLocaleString js v)"

definition microgram_per_m3 :: string where
  "microgram_per_m3 = [CHR 0xCE, CHR 0xBC] @ ''g/m'' @ [CHR 0xC2, CHR 0xB3]"

definition diagnoseLungs :: "js_runtime \<Rightarrow> string \<Rightarrow> jsobject \<Rightarrow> jsobject" where
  "diagnoseLungs js isoTime metrics =
     (let alertCount = js_or (getp metrics ''alertCount'') (JNum (Fin 0));
          region = ToString js (getp metrics ''region'')
      in if js_gt js alertCount 1000 then
           diagnosisObject
             (''CRITICAL RESPIRATORY DISTRESS: '' @ toLocaleString js alertCount
                @ '' deforestation alerts detected in '' @ region
                @ ''. Massive tissue damage observed. Area affected: ''
                @ areaText js (getp metrics ''totalAreaHa'')
                @ '' hectares. Immediate intervention required to prevent irreversible damage.'')
             ''INFLAMED'' ''CRITICAL'' isoTime
         else if js_gt js alertCount 500 then
           diagnosisObject
             (''ACUTE INFLAMMATION: '' @ toLocaleString js alertCount
                @ '' deforestation events compromising respiratory function in '' @ region
                @ ''. Significant tissue degradation detected. Urgent restoration protocols recommended.'')
             ''INFLAMED'' ''HIGH'' isoTime
         else if js_gt js alertCount 200 then
           diagnosisObject
             (''MODERATE STRESS: '' @ ToString js alertCount
                @ '' deforestation alerts indicate early-stage respiratory compromise in '' @ region
                @ ''. Preventive measures advised to avoid progression.'')
             ''INFLAMED'' ''MODERATE'' isoTime
         else
           diagnosisObject
             (''STABLE CONDITION: Minimal deforestation activity ('' @ ToString js alertCount
                @ '' alerts) in '' @ region
                @ ''. Respiratory function within normal parameters. Continue monitoring.'')
             ''HEALTHY'' ''LOW'' isoTime)"

text \<open>
  Every branch for Veins calls \<open>pH.toFixed(3)\<close>, which is a \<open>TypeError\<close> when the
  value of \<open>metrics.pH || 8.1\<close> is not a number; the comparisons before it have no
  effect, so the model raises at once.
\<close>

definition diagnoseVeins :: "js_runtime \<Rightarrow> string \<Rightarrow> jsobject \<Rightarrow> js_error + jsobject" where
  "diagnoseVeins js isoTime metrics =
     (case js_or (getp metrics ''pH'') (JNum (Fin (81 / 10))) of
        JNum pH \<Rightarrow>
          (let fixed = NumberToFixed js pH 3;
               location = ToString js (getp metrics ''location'');
               level = ToString js (getp metrics ''acidificationLevel'')
           in if jless pH (Fin (79 / 10)) then
                Inr (diagnosisObject
                  (''SEVERE ACIDOSIS: Ocean pH at '' @ fixed @ '' in '' @ location
                     @ ''. Critical acidification threatening circulatory system integrity. Coral bleaching and marine ecosystem collapse imminent. Emergency alkalinity restoration required.'')
                  ''INFLAMED'' ''CRITICAL'' isoTime)
              else if jless pH (Fin 8) then
                Inr (diagnosisObject
                  (''ACUTE ACIDIFICATION: pH level '' @ fixed @ '' detected in '' @ location
                     @ ''. Circulatory system under significant stress. '' @ level
                     @ '' acidification level compromising vascular health. Immediate buffering intervention needed.'')
                  ''INFLAMED'' ''HIGH'' isoTime)
              else if jless pH (Fin (81 / 10)) then
                Inr (diagnosisObject
                  (''EARLY ACIDOSIS: pH '' @ fixed @ '' in '' @ location
                     @ '' indicates moderate circulatory stress. '' @ level
                     @ '' acidification detected. Preventive measures recommended.'')
                  ''INFLAMED'' ''MODERATE'' isoTime)
              else
                Inr (diagnosisObject
                  (''OPTIMAL CIRCULATION: Ocean pH at '' @ fixed @ '' in '' @ location
                     @ ''. Vascular system functioning normally. Acidification levels within safe parameters.'')
                  ''HEALTHY'' ''LOW'' isoTime))
      | _ \<Rightarrow> Inl TypeError)"

text \<open>
  Likewise every branch for Skin calls \<open>pm25.toFixed(2)\<close> on the value of
  \<open>metrics.pm25 || 0\<close>.
\<close>

definition diagnoseSkin :: "js_runtime \<Rightarrow> string \<Rightarrow> jsobject \<Rightarrow> js_error + jsobject" where
  "diagnoseSkin js isoTime metrics =
     (let aqi = js_or (getp metrics ''aqi'') (JNum (Fin 1)) in
      case js_or (getp metrics ''pm25'') (JNum (Fin 0)) of
        JNum pm25 \<Rightarrow>
          (let fixed = NumberToFixed js pm25 2;
               location = ToString js (getp metrics ''location'');
               aqiText = ToString js aqi
           in if js_ge js aqi 4 \<or> jless (Fin 35) pm25 then
                Inr (diagnosisObject
                  (''SEVERE DERMAL TOXICITY: Air Quality Index '' @ aqiText
                     @ '' (Unhealthy) in '' @ location
                     @ ''. PM2.5 particulate matter at '' @ fixed @ '' '' @ microgram_per_m3
                     @ ''. Skin barrier severely compromised. Toxic exposure causing cellular damage. Immediate air purification required.'')
                  ''INFLAMED'' ''CRITICAL'' isoTime)
              else if js_ge js aqi 3 \<or> jless (Fin 25) pm25 then
                Inr (diagnosisObject
                  (''ACUTE IRRITATION: AQI '' @ aqiText @ '' with PM2.5 at '' @ fixed
                     @ '' '' @ microgram_per_m3 @ '' in '' @ location
                     @ ''. Moderate air pollution causing dermal stress. Protective measures advised.'')
                  ''INFLAMED'' ''HIGH'' isoTime)
              else if js_ge js aqi 2 \<or> jless (Fin 12) pm25 then
                Inr (diagnosisObject
                  (''MILD INFLAMMATION: AQI '' @ aqiText @ '', PM2.5 '' @ fixed
                     @ '' '' @ microgram_per_m3 @ '' in '' @ location
                     @ ''. Acceptable air quality but showing early signs of environmental stress. Monitor closely.'')
                  ''INFLAMED'' ''MODERATE'' isoTime)
              else
                Inr (diagnosisObject
                  (''HEALTHY EPIDERMIS: Air quality excellent in '' @ location
                     @ ''. AQI '' @ aqiText @ '', PM2.5 '' @ fixed @ '' '' @ microgram_per_m3
                     @ ''. Skin barrier functioning optimally. No intervention needed.'')
                  ''HEALTHY'' ''LOW'' isoTime))
      | _ \<Rightarrow> Inl TypeError)"

definition generateRuleBasedDiagnosis ::
  "js_runtime \<Rightarrow> string \<Rightarrow> jsobject \<Rightarrow> string \<Rightarrow> js_error + jsobject" where
  \<comment> \<open>the argument \<open>isoTime\<close> is what \<open>new Date().toISOString()\<close> returns\<close>
  "generateRuleBasedDiagnosis js isoTime metrics organType =
     (if organType = ''Lungs'' then Inr (diagnoseLungs js isoTime metrics)
      else if organType = ''Veins'' then diagnoseVeins js isoTime metrics
      else if organType = ''Skin'' then diagnoseSkin js isoTime metrics
      else Inr (diagnosisObject
        (''Environmental monitoring active for '' @ organType @ ''. Awaiting detailed analysis.'')
        ''INFLAMED'' ''LOW'' isoTime))"

section \<open>The diagnostic service\<close>

text \<open>
  The fields of \<open>DiagnosticService\<close> that \<open>generateDiagnosis\<close> reads and writes. The
  cache is a \<open>Map\<close> from the cache key to an entry. Times are milliseconds since the
  epoch, as \<open>Date.now()\<close> returns them.
\<close>

record cache_entry =
  data :: jsobject
  timestamp :: int

record service_state =
  diagnosisCache :: "string \<Rightarrow> cache_entry option"
  cacheExpiry :: int
  lastGeminiCall :: int
  minCallInterval :: int
  dailyCallCount :: int
  maxDailyCalls :: int
  lastResetDate :: string

definition new_DiagnosticService :: "string \<Rightarrow> service_state" where
  \<comment> \<open>the constructor; the argument is \<open>new Date().toDateString()\<close>\<close>
  "new_DiagnosticService date =
     \<lparr>diagnosisCache = Map.empty,
      cacheExpiry = 3600000,
      lastGeminiCall = 0,
      minCallInterval = 60000,
      dailyCallCount = 0,
      maxDailyCalls = 50,
      lastResetDate = date\<rparr>"

text \<open>
  What one call of \<open>generateDiagnosis\<close> reads from outside: the calendar day, the clock
  at the cache check and at \<open>const now = Date.now()\<close>, what the Gemini client does if it
  is invoked (it raises, or it returns the text of a response), and the time stamp the
  rule-based engine puts into its result.
\<close>

datatype gemini_outcome = Raises | Responds string

record call_env =
  today :: string
  clock_check :: int
  clock_now :: int
  gemini :: gemini_outcome
  isoNow :: string

text \<open>
  The outcome of a call: the object returned or the error thrown, the fields of the
  service afterwards, and whether the Gemini client was invoked.
\<close>

record call_result =
  outcome :: "js_error + jsobject"
  state :: service_state
  gemini_called :: bool

definition resetDailyCounterIfNeeded :: "string \<Rightarrow> service_state \<Rightarrow> service_state" where
  "resetDailyCounterIfNeeded date s =
     (if lastResetDate s \<noteq> date then s\<lparr>dailyCallCount := 0, lastResetDate := date\<rparr> else s)"

definition cacheLookup :: "service_state \<Rightarrow> string \<Rightarrow> int \<Rightarrow> jsobject option" where
  \<comment> \<open>\<open>cached && Date.now() - cached.timestamp < this.cacheExpiry\<close>\<close>
  "cacheLookup s key t =
     (case diagnosisCache s key of
        None \<Rightarrow> None
      | Some e \<Rightarrow> if t - timestamp e < cacheExpiry s then Some (data e) else None)"

definition cacheSet :: "service_state \<Rightarrow> string \<Rightarrow> jsobject \<Rightarrow> int \<Rightarrow> service_state" where
  "cacheSet s key d now =
     s\<lparr>diagnosisCache := (diagnosisCache s)(key \<mapsto> \<lparr>data = d, timestamp = now\<rparr>)\<rparr>"

definition shouldUseGemini :: "service_state \<Rightarrow> int \<Rightarrow> bool" where
  "shouldUseGemini s now =
     (now - lastGeminiCall s \<ge> minCallInterval s \<and> dailyCallCount s < maxDailyCalls s)"

definition jsonMatch :: "string \<Rightarrow> string option" where
  \<comment> \<open>\<open>text.match(/\{[\s\S]*\}/)\<close>: from the first opening brace to the last closing
      brace after it\<close>
  "jsonMatch text =
     (let rest = dropWhile (\<lambda>c. c \<noteq> CHR ''{'') text
      in if rest = [] then None
         else if CHR ''}'' \<in> set (tl rest)
           then Some (rev (dropWhile (\<lambda>c. c \<noteq> CHR ''}'') (rev rest)))
         else None)"

definition parseFallback :: "string \<Rightarrow> jsobject" where
  "parseFallback organType =
     [(''diagnosis'',
         JStr (''Environmental stress detected in '' @ organType
                 @ ''. Immediate intervention required.'')),
      (''status'', JStr ''INFLAMED'')]"

definition parseResponse :: "js_runtime \<Rightarrow> string \<Rightarrow> string \<Rightarrow> jsobject" where
  "parseResponse js organType text =
     (case jsonMatch text of
        None \<Rightarrow> parseFallback organType
      | Some m \<Rightarrow>
          (case JSON_parse js m of
             None \<Rightarrow> parseFallback organType
           | Some diagnosisData \<Rightarrow> diagnosisData))"

definition validateStatus :: "jsobject \<Rightarrow> jsobject" where
  "validateStatus diagnosisData =
     (if getp diagnosisData ''status'' = JStr ''INFLAMED''
         \<or> getp diagnosisData ''status'' = JStr ''HEALTHY''
      then diagnosisData
      else AList.update ''status'' (JStr ''INFLAMED'') diagnosisData)"

text \<open>
  The rule-based diagnosis is computed and cached in the same way where the quota
  forbids a Gemini call and in the \<open>catch\<close> block after a failed one. An error thrown
  by the engine leaves the cache as it was.
\<close>

definition ruleBasedPath ::
  "js_runtime \<Rightarrow> call_env \<Rightarrow> jsobject \<Rightarrow> string \<Rightarrow> service_state \<Rightarrow> bool \<Rightarrow> call_result" where
  "ruleBasedPath js env metrics organType s called =
     (case generateRuleBasedDiagnosis js (isoNow env) metrics organType of
        Inl e \<Rightarrow> \<lparr>outcome = Inl e, state = s, gemini_called = called\<rparr>
      | Inr ruleBased \<Rightarrow>
          \<lparr>outcome = Inr ruleBased,
           state = cacheSet s (cacheKey js organType metrics) ruleBased (clock_now env),
           gemini_called = called\<rparr>)"

text \<open>
  \<open>generateDiagnosis\<close> is an \<open>async\<close> function. It runs without interruption from its
  start to \<open>await model.generateContent(prompt)\<close> and, once the Gemini client has
  answered, from there to its end; while it waits, other calls on the same service
  object run. \<open>enter\<close> is the part before the \<open>await\<close>: it finishes the call at a cache
  hit and where the quota forbids a Gemini call, and otherwise suspends it, with the
  fields as the day check left them. \<open>resume\<close> is the part after the \<open>await\<close>. It
  works on the fields as they are when the answer arrives, which other calls may have
  changed in between; the constants \<open>cacheKey\<close> and \<open>now\<close> keep the values they got
  before the \<open>await\<close>.
\<close>

datatype entered = Finished call_result | Suspended service_state

definition enter ::
  "js_runtime \<Rightarrow> call_env \<Rightarrow> jsobject \<Rightarrow> string \<Rightarrow> service_state \<Rightarrow> entered" where
  "enter js env metrics organType s0 =
     (let s = resetDailyCounterIfNeeded (today env) s0;
          key = cacheKey js organType metrics
      in case cacheLookup s key (clock_check env) of
           Some cached \<Rightarrow> Finished \<lparr>outcome = Inr cached, state = s, gemini_called = False\<rparr>
         | None \<Rightarrow>
             if \<not> shouldUseGemini s (clock_now env)
             then Finished (ruleBasedPath js env metrics organType s False)
             else Suspended s)"

definition resume ::
  "js_runtime \<Rightarrow> call_env \<Rightarrow> jsobject \<Rightarrow> string \<Rightarrow> service_state \<Rightarrow> call_result" where
  "resume js env metrics organType s =
     (case gemini env of
        Raises \<Rightarrow> ruleBasedPath js env metrics organType s True
      | Responds text \<Rightarrow>
          (let diagnosisData = validateStatus (parseResponse js organType text)
           in \<lparr>outcome = Inr diagnosisData,
               state =
                 cacheSet
                   (s\<lparr>lastGeminiCall := clock_now env,
                      dailyCallCount := dailyCallCount s + 1\<rparr>)
                   (cacheKey js organType metrics) diagnosisData (clock_now env),
               gemini_called = True\<rparr>))"

text \<open>
  A call that no other call overlaps: what \<open>enter\<close> leaves is what \<open>resume\<close> finds.
\<close>

definition generateDiagnosis ::
  "js_runtime \<Rightarrow> call_env \<Rightarrow> jsobject \<Rightarrow> string \<Rightarrow> service_state \<Rightarrow> call_result" where
  "generateDiagnosis js env metrics organType s0 =
     (case enter js env metrics organType s0 of
        Finished r \<Rightarrow> r
      | Suspended s \<Rightarrow> resume js env metrics organType s)"

subsection \<open>Sequences of calls that do not overlap\<close>





subsection \<open>The diagnostic scan\<close>




section \<open>A runtime for the examples\<close>

text \<open>
  The examples below need one concrete runtime. It writes a number in decimal notation,
  groups the digits of a localised number in threes (the \<open>en-US\<close> locale), reads a
  string of decimal digits as a number, and parses the response texts that the examples
  use. It agrees with JavaScript on the arguments of the examples; it does not write
  exponents, and it rounds the decimal value where \<open>toFixed\<close> rounds the double.
\<close>

definition digit :: "nat \<Rightarrow> char" where
  "digit n = ''0123456789'' ! (n mod 10)"

fun digits :: "nat \<Rightarrow> string" where
  "digits n = (if n < 10 then [digit n] else digits (n div 10) @ [digit n])"

declare digits.simps [simp del]

fun fractionDigits :: "nat \<Rightarrow> rat \<Rightarrow> string" where
  "fractionDigits 0 f = []"
| "fractionDigits (Suc k) f =
     (if f = 0 then []
      else digit (nat \<lfloor>f * 10\<rfloor>) # fractionDigits k (f * 10 - of_int \<lfloor>f * 10\<rfloor>))"

definition exampleNumberToString :: "rat \<Rightarrow> string" where
  "exampleNumberToString r =
     (if r < 0 then ''-'' else []) @ digits (nat \<lfloor>\<bar>r\<bar>\<rfloor>)
       @ (if \<bar>r\<bar> = of_int \<lfloor>\<bar>r\<bar>\<rfloor> then []
          else ''.'' @ fractionDigits 17 (\<bar>r\<bar> - of_int \<lfloor>\<bar>r\<bar>\<rfloor>))"

definition padLeft :: "nat \<Rightarrow> string \<Rightarrow> string" where
  "padLeft k t = replicate (k - length t) CHR ''0'' @ t"

definition exampleNumberToFixed :: "jsnum \<Rightarrow> nat \<Rightarrow> string" where
  "exampleNumberToFixed n k =
     (case n of
        NaN \<Rightarrow> ''NaN''
      | PInf \<Rightarrow> ''Infinity''
      | NInf \<Rightarrow> ''-Infinity''
      | Fin r \<Rightarrow>
          (let q = nat \<lfloor>\<bar>r\<bar> * 10 ^ k + 1 / 2\<rfloor>
           in (if r < 0 then ''-'' else []) @ digits (q div 10 ^ k)
                @ (if k = 0 then [] else ''.'' @ padLeft k (digits (q mod 10 ^ k)))))"

fun groupThousands :: "nat \<Rightarrow> string" where
  "groupThousands n =
     (if n < 1000 then digits n
      else groupThousands (n div 1000) @ '','' @ padLeft 3 (digits (n mod 1000)))"

declare groupThousands.simps [simp del]

definition exampleNumberToLocaleString :: "jsnum \<Rightarrow> string" where
  "exampleNumberToLocaleString n =
     (case n of
        NaN \<Rightarrow> ''NaN''
      | PInf \<Rightarrow> [CHR 0xE2, CHR 0x88, CHR 0x9E]
      | NInf \<Rightarrow> ''-'' @ [CHR 0xE2, CHR 0x88, CHR 0x9E]
      | Fin r \<Rightarrow>
          (let q = nat \<lfloor>\<bar>r\<bar> * 1000 + 1 / 2\<rfloor>
           in (if r < 0 then ''-'' else []) @ groupThousands (q div 1000)
                @ (if q mod 1000 = 0 then []
                   else ''.'' @ rev (dropWhile (\<lambda>c. c = CHR ''0'')
                                       (rev (padLeft 3 (digits (q mod 1000))))))))"

definition exampleStringToNumber :: "string \<Rightarrow> jsnum" where
  "exampleStringToNumber t =
     (if list_all (\<lambda>c. List.member ''0123456789'' c) t
      then Fin (of_nat (foldl (\<lambda>n c. 10 * n + (of_char c - 48)) 0 t))
      else NaN)"

definition responseWithoutDiagnosis :: string where
  \<open>responseWithoutDiagnosis = ''{"status":"HEALTHY"}''\<close>

definition responseWithOtherStatus :: string where
  \<open>responseWithOtherStatus = ''{"diagnosis":"Acute inflammation.","status":"CRITICAL"}''\<close>

definition exampleParse :: "string \<Rightarrow> jsobject option" where
  "exampleParse t =
     (if t = responseWithoutDiagnosis then Some [(''status'', JStr ''HEALTHY'')]
      else if t = responseWithOtherStatus
        then Some [(''diagnosis'', JStr ''Acute inflammation.''), (''status'', JStr ''CRITICAL'')]
      else if t = ''{}'' then Some []
      else None)"

definition exampleRuntime :: js_runtime where
  "exampleRuntime =
     \<lparr>JSON_parse = exampleParse,
      NumberToString = exampleNumberToString,
      StringToNumber = exampleStringToNumber,
      NumberToLocaleString = exampleNumberToLocaleString,
      NumberToFixed = exampleNumberToFixed\<rparr>"

definition exampleService :: service_state where
  "exampleService = new_DiagnosticService ''Mon Nov 02 2026''"

definition exampleEnv :: "int \<Rightarrow> gemini_outcome \<Rightarrow> call_env" where
  \<comment> \<open>a call on 2 November 2026 at the clock reading \<open>t\<close>\<close>
  "exampleEnv t g =
     \<lparr>today = ''Mon Nov 02 2026'', clock_check = t, clock_now = t, gemini = g,
      isoNow = ''2026-11-02T12:00:00.000Z''\<rparr>"






section \<open>Properties of results and of calls\<close>

definition validStatus :: "jsobject \<Rightarrow> bool" where
  "validStatus d =
     (getp d ''status'' = JStr ''INFLAMED'' \<or> getp d ''status'' = JStr ''HEALTHY'')"

definition hasDiagnosisText :: "jsobject \<Rightarrow> bool" where
  "hasDiagnosisText d = (case getp d ''diagnosis'' of JStr t \<Rightarrow> t \<noteq> [] | _ \<Rightarrow> False)"




definition cacheMiss ::
  "js_runtime \<Rightarrow> call_env \<Rightarrow> jsobject \<Rightarrow> string \<Rightarrow> service_state \<Rightarrow> bool" where
  "cacheMiss js env metrics organType s =
     (cacheLookup (resetDailyCounterIfNeeded (today env) s) (cacheKey js organType metrics)
        (clock_check env) = None)"

definition geminiPermitted :: "call_env \<Rightarrow> service_state \<Rightarrow> bool" where
  "geminiPermitted env s =
     shouldUseGemini (resetDailyCounterIfNeeded (today env) s) (clock_now env)"

definition parseFails :: "js_runtime \<Rightarrow> string \<Rightarrow> bool" where
  \<comment> \<open>the inner \<open>try\<close> block throws: no brace-delimited span, or one that does not parse\<close>
  "parseFails js text =
     (case jsonMatch text of None \<Rightarrow> True | Some m \<Rightarrow> JSON_parse js m = None)"


definition fieldNames :: "jsobject \<Rightarrow> string list" where
  "fieldNames d = map fst d"

definition outcomeFieldNames :: "js_error + jsobject \<Rightarrow> string list" where
  "outcomeFieldNames out = (case out of Inl e \<Rightarrow> [] | Inr d \<Rightarrow> fieldNames d)"



text \<open>
  The three ways in which \<open>quote_char\<close> writes a character: a backslash and one more
  character, a six-character \<open>\u00XX\<close> escape, or the character itself.
\<close>

datatype escape_kind = Two char | Hex | Plain

definition escapeKind :: "char \<Rightarrow> escape_kind" where
  "escapeKind c =
     (if c = CHR 0x22 then Two (CHR 0x22)
      else if c = CHR 0x5C then Two (CHR 0x5C)
      else if c = CHR 0x08 then Two (CHR ''b'')
      else if c = CHR 0x0C then Two (CHR ''f'')
      else if c = CHR 0x0A then Two (CHR ''n'')
      else if c = CHR 0x0D then Two (CHR ''r'')
      else if c = CHR 0x09 then Two (CHR ''t'')
      else if (of_char c :: nat) < 32 then Hex else Plain)"

section \<open>Frame properties of a call\<close>

lemma generateDiagnosis_atomic:
  "generateDiagnosis js env metrics organType s0 =
     (let s = resetDailyCounterIfNeeded (today env) s0;
          key = cacheKey js organType metrics
      in case cacheLookup s key (clock_check env) of
           Some cached \<Rightarrow> \<lparr>outcome = Inr cached, state = s, gemini_called = False\<rparr>
         | None \<Rightarrow>
             if \<not> shouldUseGemini s (clock_now env)
             then ruleBasedPath js env metrics organType s False
             else
               (case gemini env of
                  Raises \<Rightarrow> ruleBasedPath js env metrics organType s True
                | Responds text \<Rightarrow>
                    (let diagnosisData = validateStatus (parseResponse js organType text)
                     in \<lparr>outcome = Inr diagnosisData,
                         state =
                           cacheSet
                             (s\<lparr>lastGeminiCall := clock_now env,
                                dailyCallCount := dailyCallCount s + 1\<rparr>)
                             key diagnosisData (clock_now env),
                         gemini_called = True\<rparr>)))"
  by (simp add: generateDiagnosis_def enter_def resume_def Let_def split: option.splits)

















section \<open>The cache\<close>







section \<open>Results of the rule-based engine and of the response parser\<close>







lemma getp_update_same: "getp (AList.update k v d) k = v"
  by (simp add: getp_def update_conv')

lemma getp_update_other: "k' \<noteq> k \<Longrightarrow> getp (AList.update k v d) k' = getp d k'"
  by (simp add: getp_def update_conv')

lemma validateStatus_valid: "validStatus (validateStatus d)"
  by (simp add: validateStatus_def validStatus_def getp_update_same)

lemma parseFallback_wellFormed:
  "validStatus (parseFallback t) \<and> hasDiagnosisText (parseFallback t)
   \<and> validateStatus (parseFallback t) = parseFallback t"
  by (simp add: parseFallback_def validStatus_def hasDiagnosisText_def validateStatus_def getp_def)

lemma parseFails_response: "parseFails js text \<Longrightarrow> parseResponse js t text = parseFallback t"
  by (simp add: parseFails_def parseResponse_def split: option.splits)





lemma generateDiagnosis_cases:
  "generateDiagnosis js env m t s =
     (if \<not> cacheMiss js env m t s then
        \<lparr>outcome = Inr (the (cacheLookup (resetDailyCounterIfNeeded (today env) s)
                               (cacheKey js t m) (clock_check env))),
         state = resetDailyCounterIfNeeded (today env) s, gemini_called = False\<rparr>
      else if \<not> geminiPermitted env s then
        ruleBasedPath js env m t (resetDailyCounterIfNeeded (today env) s) False
      else case gemini env of
        Raises \<Rightarrow> ruleBasedPath js env m t (resetDailyCounterIfNeeded (today env) s) True
      | Responds text \<Rightarrow>
          \<lparr>outcome = Inr (validateStatus (parseResponse js t text)),
           state = cacheSet ((resetDailyCounterIfNeeded (today env) s)
                     \<lparr>lastGeminiCall := clock_now env,
                      dailyCallCount :=
                        dailyCallCount (resetDailyCounterIfNeeded (today env) s) + 1\<rparr>)
                     (cacheKey js t m) (validateStatus (parseResponse js t text)) (clock_now env),
           gemini_called = True\<rparr>)"
  by (auto simp add: generateDiagnosis_atomic cacheMiss_def geminiPermitted_def Let_def
      split: option.splits gemini_outcome.splits)






lemma ruleBased_fieldNames:
  "generateRuleBasedDiagnosis js t m organType = Inr d \<Longrightarrow>
     fieldNames d = [''diagnosis'', ''status'', ''severity'', ''source'', ''timestamp'']"
  by (auto simp add: generateRuleBasedDiagnosis_def diagnoseLungs_def diagnoseVeins_def
      diagnoseSkin_def Let_def diagnosisObject_def fieldNames_def
      split: if_splits jsval.splits)

lemma validateStatus_fieldNames:
  "set (fieldNames (validateStatus d)) = insert ''status'' (set (fieldNames d))"
proof (cases "validStatus d")
  case True
  then have "map_of d ''status'' \<noteq> None"
    by (auto simp add: validStatus_def getp_def split: option.splits)
  then have "''status'' \<in> set (fieldNames d)"
    by (simp add: fieldNames_def map_of_eq_None_iff)
  with True show ?thesis
    by (auto simp add: validateStatus_def validStatus_def)
next
  case False
  then show ?thesis
    using dom_update [of "''status''" "JStr ''INFLAMED''" d]
    by (simp add: validateStatus_def validStatus_def fieldNames_def)
qed

lemma status_in_fieldNames: "validStatus d \<Longrightarrow> ''status'' \<in> set (fieldNames d)"
proof -
  assume "validStatus d"
  then have "map_of d ''status'' \<noteq> None"
    by (auto simp add: validStatus_def getp_def split: option.splits)
  then show ?thesis
    by (simp add: fieldNames_def map_of_eq_None_iff)
qed

section \<open>The cache key\<close>

lemma hexdigit_inj: "hexdigit m = hexdigit n \<Longrightarrow> m mod 16 = n mod 16"
proof -
  have d: "distinct ''0123456789abcdef''" by simp
  have l: "length ''0123456789abcdef'' = 16" by simp
  assume "hexdigit m = hexdigit n"
  then show ?thesis
    unfolding hexdigit_def using nth_eq_iff_index_eq [OF d, of "m mod 16" "n mod 16"] l
    by simp
qed

lemma control_char_eq:
  assumes "(of_char c :: nat) < 32" "(of_char d :: nat) < 32"
    and "hexdigit (of_char c div 16) = hexdigit (of_char d div 16)"
    and "hexdigit (of_char c) = hexdigit (of_char d)"
  shows "c = d"
proof -
  have a: "(of_char c :: nat) div 16 mod 16 = of_char d div 16 mod 16"
    and b: "(of_char c :: nat) mod 16 = of_char d mod 16"
    using assms(3,4) by (auto dest: hexdigit_inj)
  from assms(1,2) have "(of_char c :: nat) div 16 < 16" "(of_char d :: nat) div 16 < 16"
    by simp_all
  with a have "(of_char c :: nat) div 16 = of_char d div 16" by simp
  with b have "(of_char c :: nat) = of_char d"
    by (metis div_mult_mod_eq)
  then show ?thesis by simp
qed

lemma quote_char_kind:
  "quote_char c =
     (case escapeKind c of
        Two x \<Rightarrow> [CHR 0x5C, x]
      | Hex \<Rightarrow> [CHR 0x5C, CHR ''u'', CHR ''0'', CHR ''0'',
              hexdigit (of_char c div 16), hexdigit (of_char c)]
      | Plain \<Rightarrow> [c])"
  by (simp add: quote_char_def escapeKind_def)

lemma kind_Two_char:
  "escapeKind c = Two x \<Longrightarrow>
     c = (if x = CHR 0x22 then CHR 0x22 else if x = CHR 0x5C then CHR 0x5C
          else if x = CHR ''b'' then CHR 0x08 else if x = CHR ''f'' then CHR 0x0C
          else if x = CHR ''n'' then CHR 0x0A else if x = CHR ''r'' then CHR 0x0D
          else CHR 0x09)"
  by (auto simp add: escapeKind_def split: if_splits)

lemma kind_Two: "escapeKind c = Two x \<Longrightarrow> escapeKind d = Two x \<Longrightarrow> c = d"
  using kind_Two_char [of c x] kind_Two_char [of d x] by simp

lemma kind_Two_not_u: "escapeKind c = Two x \<Longrightarrow> x \<noteq> CHR ''u''"
  by (auto simp add: escapeKind_def split: if_splits)

lemma kind_Plain: "escapeKind c = Plain \<Longrightarrow> c \<noteq> CHR 0x5C \<and> c \<noteq> CHR 0x22"
  by (auto simp add: escapeKind_def split: if_splits)

lemma kind_Hex: "escapeKind c = Hex \<Longrightarrow> (of_char c :: nat) < 32"
  by (auto simp add: escapeKind_def split: if_splits)

lemma quote_char_prefix:
  assumes "quote_char c @ x = quote_char d @ y"
  shows "c = d"
proof (cases "escapeKind c")
  case (Two a)
  note c = this
  show ?thesis
  proof (cases "escapeKind d")
    case (Two b)
    with c assms show ?thesis by (auto simp add: quote_char_kind dest: kind_Two)
  next
    case Hex
    with c assms show ?thesis by (auto simp add: quote_char_kind dest: kind_Two_not_u)
  next
    case Plain
    with c assms show ?thesis by (auto simp add: quote_char_kind dest: kind_Plain)
  qed
next
  case Hex
  note c = this
  show ?thesis
  proof (cases "escapeKind d")
    case (Two b)
    with c assms show ?thesis by (auto simp add: quote_char_kind dest: kind_Two_not_u)
  next
    case Hex
    with c assms show ?thesis
      by (auto simp add: quote_char_kind dest: kind_Hex intro: control_char_eq)
  next
    case Plain
    with c assms show ?thesis by (auto simp add: quote_char_kind dest: kind_Plain)
  qed
next
  case Plain
  note c = this
  show ?thesis
  proof (cases "escapeKind d")
    case (Two b)
    with c assms show ?thesis by (auto simp add: quote_char_kind dest: kind_Plain)
  next
    case Hex
    with c assms show ?thesis by (auto simp add: quote_char_kind dest: kind_Plain)
  next
    case Plain
    with c assms show ?thesis by (auto simp add: quote_char_kind)
  qed
qed

lemma quote_char_head: "quote_char c \<noteq> [] \<and> hd (quote_char c) \<noteq> CHR 0x22"
  by (auto simp add: quote_char_kind dest: kind_Plain split: escape_kind.splits)

lemma quoted_chars_prefix:
  "concat (map quote_char a) @ CHR 0x22 # x = concat (map quote_char b) @ CHR 0x22 # y
     \<Longrightarrow> a = b"
proof (induction a arbitrary: b)
  case Nil
  show ?case
  proof (cases b)
    case Nil
    then show ?thesis by simp
  next
    case (Cons d b')
    with Nil have "CHR 0x22 = hd (quote_char d)"
      using quote_char_head [of d] by (cases "quote_char d") auto
    then show ?thesis using quote_char_head [of d] by simp
  qed
next
  case (Cons c a')
  show ?case
  proof (cases b)
    case Nil
    with Cons.prems have "CHR 0x22 = hd (quote_char c)"
      using quote_char_head [of c] by (cases "quote_char c") auto
    then show ?thesis using quote_char_head [of c] by simp
  next
    case (Cons d b')
    with Cons.prems have eq: "quote_char c @ (concat (map quote_char a') @ CHR 0x22 # x)
        = quote_char d @ (concat (map quote_char b') @ CHR 0x22 # y)"
      by simp
    then have cd: "c = d" by (rule quote_char_prefix)
    with eq have "concat (map quote_char a') @ CHR 0x22 # x
        = concat (map quote_char b') @ CHR 0x22 # y"
      by simp
    then have "a' = b'" by (rule Cons.IH)
    with cd Cons show ?thesis by simp
  qed
qed

lemma quote_prefix: "quote a @ x = quote b @ y \<Longrightarrow> a = b"
  using quoted_chars_prefix [of a x b y] by (simp add: quote_def)

lemma join_Cons: "\<exists>rest. join sep (x # xs) = x @ rest"
  by (cases xs) simp_all

lemma stringify_object_first:
  assumes "JSON_stringify js v = Some t"
  shows "\<exists>rest. JSON_stringify js (JObj ((k, v) # fs)) = Some (''{'' @ quote k @ rest)"
proof -
  obtain r where "join '','' ((quote k @ '':'' @ t) # stringify_props js fs)
      = (quote k @ '':'' @ t) @ r"
    using join_Cons by blast
  with assms show ?thesis by simp
qed

section \<open>A service that has used 49 calls of its quota\<close>







section \<open>The health score of a scan\<close>






section \<open>The claims\<close>

text \<open>
  What a claim says about a sequence of calls is stated for calls that do not overlap
  (\<open>run\<close>); what holds of a call whatever overlaps it is stated for \<open>enter\<close> on any
  state of the fields. The counterexamples with overlapping calls let two calls enter
  before either of them resumes.
\<close>

lemmas example_defs =
  exampleService_def exampleEnv_def new_DiagnosticService_def exampleRuntime_def
  generateDiagnosis_atomic resetDailyCounterIfNeeded_def cacheLookup_def cacheSet_def
  shouldUseGemini_def ruleBasedPath_def generateRuleBasedDiagnosis_def cacheKey_def
  parseResponse_def validateStatus_def parseFallback_def jsonMatch_def getp_def
  diagnosisObject_def Let_def

subsection \<open>C1: the daily counter\<close>




subsection \<open>C2: a failed Gemini call\<close>

text \<open>
  Claim C2 says that a Gemini call that raises still uses one unit of the daily quota and
  restarts the spacing timer. The code records the quota only after a response has been
  parsed. On the first call of a day, with a client that raises, the client is invoked
  and neither \<open>lastGeminiCall\<close> nor \<open>dailyCallCount\<close> changes; a second call one second
  later invokes the client again.
\<close>

theorem failed_call_is_not_recorded:
  "geminiPermitted (exampleEnv 1793620800000 Raises) exampleService
   \<and> gemini_called (generateDiagnosis exampleRuntime (exampleEnv 1793620800000 Raises)
         [(''alertCount'', JNum (Fin 50))] ''Lungs'' exampleService)
   \<and> lastGeminiCall (state (generateDiagnosis exampleRuntime (exampleEnv 1793620800000 Raises)
         [(''alertCount'', JNum (Fin 50))] ''Lungs'' exampleService))
       = lastGeminiCall exampleService
   \<and> dailyCallCount (state (generateDiagnosis exampleRuntime (exampleEnv 1793620800000 Raises)
         [(''alertCount'', JNum (Fin 50))] ''Lungs'' exampleService))
       = dailyCallCount exampleService
   \<and> gemini_called (generateDiagnosis exampleRuntime (exampleEnv 1793620801000 Raises)
         [] ''Veins''
         (state (generateDiagnosis exampleRuntime (exampleEnv 1793620800000 Raises)
            [(''alertCount'', JNum (Fin 50))] ''Lungs'' exampleService)))"
  by (simp add: example_defs geminiPermitted_def diagnoseVeins_def js_or_def)

subsection \<open>C3: reuse of a cached result\<close>




subsection \<open>C4: the spacing of recorded calls\<close>




subsection \<open>C5: status and diagnosis text of a result\<close>




subsection \<open>C6: the cache key and the order of fields\<close>

text \<open>
  As stated, C6 makes the cache key independent of the order of the fields. The key is
  built with \<open>JSON.stringify\<close>, which writes the fields in insertion order: the same two
  pairs in the other order give another key.
\<close>

theorem cacheKey_field_order_counterexample:
  "set [(''location'', JStr ''Great Barrier Reef''), (''acidificationLevel'', JStr ''HIGH'')]
     = set [(''acidificationLevel'', JStr ''HIGH''), (''location'', JStr ''Great Barrier Reef'')]
   \<and> cacheKey exampleRuntime ''Veins''
        [(''location'', JStr ''Great Barrier Reef''), (''acidificationLevel'', JStr ''HIGH'')]
     \<noteq> cacheKey exampleRuntime ''Veins''
        [(''acidificationLevel'', JStr ''HIGH''), (''location'', JStr ''Great Barrier Reef'')]"
  by (auto simp add: cacheKey_def quote_def quote_char_def)

text \<open>
  Claim C6, amended. The cache key is the organ type, a hyphen and the JSON text of the
  snapshot with its fields in insertion order. It depends on that order: two snapshots
  whose first fields have different names (both with a value that \<open>JSON.stringify\<close>
  writes) never get the same key, whatever fields follow; so the same pairs in an order
  that starts with another field miss the cache entry.
\<close>

theorem cacheKey_depends_on_field_order:
  assumes "JSON_stringify js v1 \<noteq> None" and "JSON_stringify js v2 \<noteq> None"
    and "k1 \<noteq> k2"
  shows "cacheKey js organType ((k1, v1) # fs1) \<noteq> cacheKey js organType ((k2, v2) # fs2)"
proof
  assume eq: "cacheKey js organType ((k1, v1) # fs1) = cacheKey js organType ((k2, v2) # fs2)"
  from assms(1) obtain r1 where
    r1: "JSON_stringify js (JObj ((k1, v1) # fs1)) = Some (''{'' @ quote k1 @ r1)"
    using stringify_object_first by blast
  from assms(2) obtain r2 where
    r2: "JSON_stringify js (JObj ((k2, v2) # fs2)) = Some (''{'' @ quote k2 @ r2)"
    using stringify_object_first by blast
  from eq r1 r2 have "quote k1 @ r1 = quote k2 @ r2"
    by (simp add: cacheKey_def)
  then have "k1 = k2" by (rule quote_prefix)
  with assms(3) show False by simp
qed

theorem cacheKey_depends_on_field_order_witness:
  "JSON_stringify exampleRuntime (JNum (Fin 1500)) \<noteq> None
   \<and> JSON_stringify exampleRuntime (JStr ''Amazon'') \<noteq> None
   \<and> ''alertCount'' \<noteq> ''region''
   \<and> cacheKey exampleRuntime ''Lungs''
        ((''alertCount'', JNum (Fin 1500)) # [(''region'', JStr ''Amazon'')])
     \<noteq> cacheKey exampleRuntime ''Lungs''
        ((''region'', JStr ''Amazon'') # [(''alertCount'', JNum (Fin 1500))])"
proof -
  have v1: "JSON_stringify exampleRuntime (JNum (Fin 1500)) \<noteq> None"
    and v2: "JSON_stringify exampleRuntime (JStr ''Amazon'') \<noteq> None"
    and k: "''alertCount'' \<noteq> ''region''"
    by simp_all
  show ?thesis
    using v1 v2 k
      cacheKey_depends_on_field_order [OF v1 v2 k, of "''Lungs''"
        "[(''region'', JStr ''Amazon'')]" "[(''alertCount'', JNum (Fin 1500))]"]
    by simp
qed

subsection \<open>C7: a malformed response\<close>

text \<open>
  As stated, C7 substitutes the generic diagnosis also when the parsed object has a
  status that is not permitted. The code then replaces the status only and keeps the
  diagnosis of the response.
\<close>

theorem invalid_status_keeps_diagnosis_counterexample:
  "jsonMatch responseWithOtherStatus = Some responseWithOtherStatus
   \<and> JSON_parse exampleRuntime responseWithOtherStatus
       = Some [(''diagnosis'', JStr ''Acute inflammation.''), (''status'', JStr ''CRITICAL'')]
   \<and> \<not> validStatus [(''diagnosis'', JStr ''Acute inflammation.''), (''status'', JStr ''CRITICAL'')]
   \<and> outcome (generateDiagnosis exampleRuntime
        (exampleEnv 1793620800000 (Responds responseWithOtherStatus))
        [(''alertCount'', JNum (Fin 50))] ''Lungs'' exampleService)
       = Inr [(''diagnosis'', JStr ''Acute inflammation.''), (''status'', JStr ''INFLAMED'')]
   \<and> outcome (generateDiagnosis exampleRuntime
        (exampleEnv 1793620800000 (Responds responseWithOtherStatus))
        [(''alertCount'', JNum (Fin 50))] ''Lungs'' exampleService)
       \<noteq> Inr [(''diagnosis'',
                JStr ''Environmental stress detected in Lungs. Immediate intervention required.''),
               (''status'', JStr ''INFLAMED'')]"
  by (simp add: example_defs responseWithOtherStatus_def exampleParse_def
      responseWithoutDiagnosis_def validStatus_def)

text \<open>
  Claim C7, amended. In a call that reaches the Gemini client and gets a response text:
  when the text has no span from an opening to a closing brace, or \<open>JSON.parse\<close> rejects
  that span, the result is the generic diagnosis \<open>Environmental stress detected in
  {organType}. Immediate intervention required.\<close> with status \<open>INFLAMED\<close>; when the
  span parses to an object whose status is not permitted, the result is that object with
  its status set to \<open>INFLAMED\<close> and its diagnosis unchanged. In both cases the call
  returns and throws nothing.
\<close>

theorem malformed_response_is_replaced:
  assumes "cacheMiss js env metrics organType s" and "geminiPermitted env s"
    and "gemini env = Responds text"
  shows "(parseFails js text \<longrightarrow>
           outcome (generateDiagnosis js env metrics organType s) =
             Inr [(''diagnosis'', JStr (''Environmental stress detected in '' @ organType
                                         @ ''. Immediate intervention required.'')),
                  (''status'', JStr ''INFLAMED'')])
    \<and> (\<forall>m diagnosisData.
          jsonMatch text = Some m \<and> JSON_parse js m = Some diagnosisData
            \<and> \<not> validStatus diagnosisData \<longrightarrow>
          outcome (generateDiagnosis js env metrics organType s) =
            Inr (AList.update ''status'' (JStr ''INFLAMED'') diagnosisData)
          \<and> getp (AList.update ''status'' (JStr ''INFLAMED'') diagnosisData) ''status''
               = JStr ''INFLAMED''
          \<and> getp (AList.update ''status'' (JStr ''INFLAMED'') diagnosisData) ''diagnosis''
               = getp diagnosisData ''diagnosis'')
    \<and> (\<exists>d. outcome (generateDiagnosis js env metrics organType s) = Inr d)"
proof -
  have "outcome (generateDiagnosis js env metrics organType s) =
          Inr (validateStatus (parseResponse js organType text))"
    using assms by (simp add: generateDiagnosis_cases)
  moreover have "validateStatus (parseResponse js organType text) = parseFallback organType"
    if "parseFails js text"
    using that by (simp add: parseFails_response parseFallback_wellFormed)
  moreover have "validateStatus (parseResponse js organType text)
      = AList.update ''status'' (JStr ''INFLAMED'') diagnosisData"
    if "jsonMatch text = Some m" "JSON_parse js m = Some diagnosisData"
      "\<not> validStatus diagnosisData" for m diagnosisData
    using that by (simp add: parseResponse_def validateStatus_def validStatus_def)
  ultimately show ?thesis
    by (simp add: parseFallback_def getp_update_same getp_update_other)
qed

theorem malformed_response_is_replaced_witness:
  "cacheMiss exampleRuntime (exampleEnv 1793620800000 (Responds ''no structured object''))
      [] ''Lungs'' exampleService
   \<and> geminiPermitted (exampleEnv 1793620800000 (Responds ''no structured object''))
        exampleService
   \<and> parseFails exampleRuntime ''no structured object''
   \<and> outcome (generateDiagnosis exampleRuntime
        (exampleEnv 1793620800000 (Responds ''no structured object'')) [] ''Lungs''
        exampleService)
       = Inr [(''diagnosis'',
                JStr ''Environmental stress detected in Lungs. Immediate intervention required.''),
              (''status'', JStr ''INFLAMED'')]
   \<and> cacheMiss exampleRuntime (exampleEnv 1793620800000 (Responds responseWithOtherStatus))
        [] ''Lungs'' exampleService
   \<and> geminiPermitted (exampleEnv 1793620800000 (Responds responseWithOtherStatus))
        exampleService
   \<and> jsonMatch responseWithOtherStatus = Some responseWithOtherStatus
   \<and> JSON_parse exampleRuntime responseWithOtherStatus
       = Some [(''diagnosis'', JStr ''Acute inflammation.''), (''status'', JStr ''CRITICAL'')]
   \<and> \<not> validStatus [(''diagnosis'', JStr ''Acute inflammation.''), (''status'', JStr ''CRITICAL'')]
   \<and> outcome (generateDiagnosis exampleRuntime
        (exampleEnv 1793620800000 (Responds responseWithOtherStatus)) [] ''Lungs''
        exampleService)
       = Inr (AList.update ''status'' (JStr ''INFLAMED'')
               [(''diagnosis'', JStr ''Acute inflammation.''), (''status'', JStr ''CRITICAL'')])"
proof -
  let ?env1 = "exampleEnv 1793620800000 (Responds ''no structured object'')"
  let ?env2 = "exampleEnv 1793620800000 (Responds responseWithOtherStatus)"
  let ?obj = "[(''diagnosis'', JStr ''Acute inflammation.''), (''status'', JStr ''CRITICAL'')]"
  have miss1: "cacheMiss exampleRuntime ?env1 [] ''Lungs'' exampleService"
    and miss2: "cacheMiss exampleRuntime ?env2 [] ''Lungs'' exampleService"
    by (simp_all add: cacheMiss_def cacheLookup_def resetDailyCounterIfNeeded_def
        exampleService_def new_DiagnosticService_def)
  have ok1: "geminiPermitted ?env1 exampleService"
    and ok2: "geminiPermitted ?env2 exampleService"
    by (simp_all add: geminiPermitted_def shouldUseGemini_def resetDailyCounterIfNeeded_def
        exampleService_def new_DiagnosticService_def exampleEnv_def)
  have g1: "gemini ?env1 = Responds ''no structured object''"
    and g2: "gemini ?env2 = Responds responseWithOtherStatus"
    by (simp_all add: exampleEnv_def)
  have fails: "parseFails exampleRuntime ''no structured object''"
    by (simp add: parseFails_def jsonMatch_def)
  have span: "jsonMatch responseWithOtherStatus = Some responseWithOtherStatus"
    by (simp add: jsonMatch_def responseWithOtherStatus_def)
  have parsed: "JSON_parse exampleRuntime responseWithOtherStatus = Some ?obj"
    by (simp add: exampleRuntime_def exampleParse_def responseWithOtherStatus_def
        responseWithoutDiagnosis_def)
  have bad: "\<not> validStatus ?obj"
    by (simp add: validStatus_def getp_def)
  show ?thesis
    using miss1 miss2 ok1 ok2 fails span parsed bad
      malformed_response_is_replaced [OF miss1 ok1 g1]
      malformed_response_is_replaced [OF miss2 ok2 g2]
    by simp
qed

subsection \<open>C8: the thresholds for Lungs\<close>

text \<open>
  Claim C8. For Lungs with a numeric \<open>alertCount\<close>, \<open>generateRuleBasedDiagnosis\<close>
  returns severity \<open>CRITICAL\<close> and status \<open>INFLAMED\<close> above 1000, \<open>HIGH\<close> and
  \<open>INFLAMED\<close> above 500, \<open>MODERATE\<close> and \<open>INFLAMED\<close> above 200, and status
  \<open>HEALTHY\<close> otherwise; the first threshold that matches decides.
\<close>

theorem lungs_thresholds:
  assumes "getp metrics ''alertCount'' = JNum (Fin n)"
  shows "\<exists>d. generateRuleBasedDiagnosis js isoTime metrics ''Lungs'' = Inr d
    \<and> (1000 < n \<longrightarrow>
         getp d ''severity'' = JStr ''CRITICAL'' \<and> getp d ''status'' = JStr ''INFLAMED'')
    \<and> (500 < n \<and> n \<le> 1000 \<longrightarrow>
         getp d ''severity'' = JStr ''HIGH'' \<and> getp d ''status'' = JStr ''INFLAMED'')
    \<and> (200 < n \<and> n \<le> 500 \<longrightarrow>
         getp d ''severity'' = JStr ''MODERATE'' \<and> getp d ''status'' = JStr ''INFLAMED'')
    \<and> (n \<le> 200 \<longrightarrow> getp d ''status'' = JStr ''HEALTHY'')"
proof -
  have "js_or (JNum (Fin n)) (JNum (Fin 0)) = JNum (Fin n)"
    by (simp add: js_or_def)
  then show ?thesis
    using assms
    by (simp add: generateRuleBasedDiagnosis_def diagnoseLungs_def Let_def js_gt_def
        ToNumber_def diagnosisObject_def getp_def)
qed

theorem lungs_thresholds_witness:
  "getp [(''alertCount'', JNum (Fin 1500)), (''region'', JStr ''Amazon'')] ''alertCount''
     = JNum (Fin 1500)
   \<and> (\<exists>d. generateRuleBasedDiagnosis exampleRuntime ''2026-11-02T12:00:00.000Z''
           [(''alertCount'', JNum (Fin 1500)), (''region'', JStr ''Amazon'')] ''Lungs'' = Inr d
         \<and> getp d ''severity'' = JStr ''CRITICAL'' \<and> getp d ''status'' = JStr ''INFLAMED'')
   \<and> getp [(''alertCount'', JNum (Fin 50)), (''region'', JStr ''Amazon'')] ''alertCount''
     = JNum (Fin 50)
   \<and> (\<exists>d. generateRuleBasedDiagnosis exampleRuntime ''2026-11-02T12:00:00.000Z''
           [(''alertCount'', JNum (Fin 50)), (''region'', JStr ''Amazon'')] ''Lungs'' = Inr d
         \<and> getp d ''status'' = JStr ''HEALTHY'')"
proof -
  let ?m1 = "[(''alertCount'', JNum (Fin 1500)), (''region'', JStr ''Amazon'')]"
  let ?m2 = "[(''alertCount'', JNum (Fin 50)), (''region'', JStr ''Amazon'')]"
  have h1: "getp ?m1 ''alertCount'' = JNum (Fin 1500)"
    and h2: "getp ?m2 ''alertCount'' = JNum (Fin 50)"
    by (simp_all add: getp_def)
  show ?thesis
    using h1 h2
      lungs_thresholds [OF h1, of exampleRuntime "''2026-11-02T12:00:00.000Z''"]
      lungs_thresholds [OF h2, of exampleRuntime "''2026-11-02T12:00:00.000Z''"]
    by simp
qed

subsection \<open>C9: the shape of the results\<close>

text \<open>
  As stated, C9 gives the result of the rule-based engine and the result of the Gemini
  path the same set of fields. The rule-based result has five fields; the result of the
  Gemini path after a response without a structured object has two.
\<close>

theorem result_shapes_counterexample:
  "set (outcomeFieldNames (generateRuleBasedDiagnosis exampleRuntime ''2026-11-02T12:00:00.000Z''
          [(''alertCount'', JNum (Fin 50))] ''Lungs''))
   \<noteq> set (outcomeFieldNames (outcome (generateDiagnosis exampleRuntime
          (exampleEnv 1793620800000 (Responds ''no structured object''))
          [(''alertCount'', JNum (Fin 50))] ''Lungs'' exampleService)))"
proof -
  have "''severity'' \<in> set (outcomeFieldNames (generateRuleBasedDiagnosis exampleRuntime
          ''2026-11-02T12:00:00.000Z'' [(''alertCount'', JNum (Fin 50))] ''Lungs''))"
    by (simp add: example_defs outcomeFieldNames_def fieldNames_def diagnoseLungs_def)
  moreover have "''severity'' \<notin> set (outcomeFieldNames (outcome (generateDiagnosis
          exampleRuntime (exampleEnv 1793620800000 (Responds ''no structured object''))
          [(''alertCount'', JNum (Fin 50))] ''Lungs'' exampleService)))"
    by (simp add: example_defs outcomeFieldNames_def fieldNames_def)
  ultimately show ?thesis by metis
qed

text \<open>
  Claim C9, amended. A result of the rule-based engine has exactly the fields
  \<open>diagnosis\<close>, \<open>status\<close>, \<open>severity\<close>, \<open>source\<close> and \<open>timestamp\<close>. A result of
  the Gemini path always has the field \<open>status\<close>; after the parse fallback it has
  exactly \<open>diagnosis\<close> and \<open>status\<close>, and otherwise the fields of the object in the
  response. So both kinds of result carry \<open>status\<close>, and only the rule-based one is
  sure to carry \<open>severity\<close>, \<open>source\<close> and \<open>timestamp\<close>.
\<close>

theorem result_shapes:
  "(\<forall>d. generateRuleBasedDiagnosis js isoTime metrics organType = Inr d \<longrightarrow>
       fieldNames d = [''diagnosis'', ''status'', ''severity'', ''source'', ''timestamp''])
   \<and> (cacheMiss js env metrics organType s \<and> geminiPermitted env s
        \<and> gemini env = Responds text \<longrightarrow>
       (\<exists>d. outcome (generateDiagnosis js env metrics organType s) = Inr d
          \<and> ''status'' \<in> set (fieldNames d)
          \<and> (parseFails js text \<longrightarrow> fieldNames d = [''diagnosis'', ''status''])
          \<and> (\<forall>m diagnosisData.
                jsonMatch text = Some m \<and> JSON_parse js m = Some diagnosisData \<longrightarrow>
                set (fieldNames d) = insert ''status'' (set (fieldNames diagnosisData)))))"
proof -
  have gemini_shape: "\<exists>d. outcome (generateDiagnosis js env metrics organType s) = Inr d
          \<and> ''status'' \<in> set (fieldNames d)
          \<and> (parseFails js text \<longrightarrow> fieldNames d = [''diagnosis'', ''status''])
          \<and> (\<forall>m diagnosisData.
                jsonMatch text = Some m \<and> JSON_parse js m = Some diagnosisData \<longrightarrow>
                set (fieldNames d) = insert ''status'' (set (fieldNames diagnosisData)))"
    if "cacheMiss js env metrics organType s" "geminiPermitted env s"
      "gemini env = Responds text"
  proof -
    let ?d = "validateStatus (parseResponse js organType text)"
    have "outcome (generateDiagnosis js env metrics organType s) = Inr ?d"
      using that by (simp add: generateDiagnosis_cases)
    moreover have "''status'' \<in> set (fieldNames ?d)"
      by (simp add: status_in_fieldNames validateStatus_valid)
    moreover have "fieldNames ?d = [''diagnosis'', ''status'']" if "parseFails js text"
      using that by (simp add: parseFails_response parseFallback_wellFormed)
        (simp add: parseFallback_def fieldNames_def)
    moreover have "set (fieldNames ?d) = insert ''status'' (set (fieldNames diagnosisData))"
      if "jsonMatch text = Some m" "JSON_parse js m = Some diagnosisData" for m diagnosisData
      using that by (simp add: parseResponse_def validateStatus_fieldNames)
    ultimately show ?thesis by blast
  qed
  show ?thesis
  proof (intro conjI allI impI)
    fix d
    assume "generateRuleBasedDiagnosis js isoTime metrics organType = Inr d"
    then show "fieldNames d = [''diagnosis'', ''status'', ''severity'', ''source'', ''timestamp'']"
      by (rule ruleBased_fieldNames)
  next
    assume "cacheMiss js env metrics organType s \<and> geminiPermitted env s
        \<and> gemini env = Responds text"
    then show "\<exists>d. outcome (generateDiagnosis js env metrics organType s) = Inr d
          \<and> ''status'' \<in> set (fieldNames d)
          \<and> (parseFails js text \<longrightarrow> fieldNames d = [''diagnosis'', ''status''])
          \<and> (\<forall>m diagnosisData.
                jsonMatch text = Some m \<and> JSON_parse js m = Some diagnosisData \<longrightarrow>
                set (fieldNames d) = insert ''status'' (set (fieldNames diagnosisData)))"
      by (elim conjE) (rule gemini_shape)
  qed
qed

theorem result_shapes_witness:
  "generateRuleBasedDiagnosis exampleRuntime ''2026-11-02T12:00:00.000Z'' [] ''Lungs''
     = Inr (diagnoseLungs exampleRuntime ''2026-11-02T12:00:00.000Z'' [])
   \<and> fieldNames (diagnoseLungs exampleRuntime ''2026-11-02T12:00:00.000Z'' [])
     = [''diagnosis'', ''status'', ''severity'', ''source'', ''timestamp'']
   \<and> cacheMiss exampleRuntime (exampleEnv 1793620800000 (Responds ''no structured object''))
        [] ''Lungs'' exampleService
   \<and> geminiPermitted (exampleEnv 1793620800000 (Responds ''no structured object''))
        exampleService
   \<and> parseFails exampleRuntime ''no structured object''
   \<and> (\<exists>d. outcome (generateDiagnosis exampleRuntime
              (exampleEnv 1793620800000 (Responds ''no structured object'')) [] ''Lungs''
              exampleService) = Inr d
         \<and> ''status'' \<in> set (fieldNames d)
         \<and> fieldNames d = [''diagnosis'', ''status''])
   \<and> cacheMiss exampleRuntime (exampleEnv 1793620800000 (Responds responseWithoutDiagnosis))
        [] ''Lungs'' exampleService
   \<and> geminiPermitted (exampleEnv 1793620800000 (Responds responseWithoutDiagnosis))
        exampleService
   \<and> jsonMatch responseWithoutDiagnosis = Some responseWithoutDiagnosis
   \<and> JSON_parse exampleRuntime responseWithoutDiagnosis = Some [(''status'', JStr ''HEALTHY'')]
   \<and> (\<exists>d. outcome (generateDiagnosis exampleRuntime
              (exampleEnv 1793620800000 (Responds responseWithoutDiagnosis)) [] ''Lungs''
              exampleService) = Inr d
         \<and> set (fieldNames d) = {''status''})"
proof -
  let ?env = "exampleEnv 1793620800000 (Responds ''no structured object'')"
  let ?env2 = "exampleEnv 1793620800000 (Responds responseWithoutDiagnosis)"
  let ?iso = "''2026-11-02T12:00:00.000Z''"
  have rule: "generateRuleBasedDiagnosis exampleRuntime ?iso [] ''Lungs''
      = Inr (diagnoseLungs exampleRuntime ?iso [])"
    by (simp add: generateRuleBasedDiagnosis_def)
  have miss: "cacheMiss exampleRuntime ?env [] ''Lungs'' exampleService"
    and miss2: "cacheMiss exampleRuntime ?env2 [] ''Lungs'' exampleService"
    by (simp_all add: cacheMiss_def cacheLookup_def resetDailyCounterIfNeeded_def
        exampleService_def new_DiagnosticService_def)
  have ok: "geminiPermitted ?env exampleService"
    and ok2: "geminiPermitted ?env2 exampleService"
    by (simp_all add: geminiPermitted_def shouldUseGemini_def resetDailyCounterIfNeeded_def
        exampleService_def new_DiagnosticService_def exampleEnv_def)
  have g: "gemini ?env = Responds ''no structured object''"
    and g2: "gemini ?env2 = Responds responseWithoutDiagnosis"
    by (simp_all add: exampleEnv_def)
  have fails: "parseFails exampleRuntime ''no structured object''"
    by (simp add: parseFails_def jsonMatch_def)
  have span: "jsonMatch responseWithoutDiagnosis = Some responseWithoutDiagnosis"
    by (simp add: jsonMatch_def responseWithoutDiagnosis_def)
  have parsed: "JSON_parse exampleRuntime responseWithoutDiagnosis
      = Some [(''status'', JStr ''HEALTHY'')]"
    by (simp add: exampleRuntime_def exampleParse_def)
  have names: "fieldNames [(''status'', JStr ''HEALTHY'')] = [''status'']"
    by (simp add: fieldNames_def)
  show ?thesis
    using rule miss miss2 ok ok2 g g2 fails span parsed names
      result_shapes [of exampleRuntime ?iso "[]" "''Lungs''" ?env exampleService
        "''no structured object''"]
      result_shapes [of exampleRuntime ?iso "[]" "''Lungs''" ?env2 exampleService
        responseWithoutDiagnosis]
    by auto
qed

subsection \<open>C10: the health score of Veins below the range\<close>




end
